theory Spec2Isabelle
  imports Complex_Main
begin

section \<open>Numbers\<close>

text \<open>
  The components compute with JavaScript numbers. Levels, averages and times in seconds
  are modelled as \<^typ>\<open>real\<close>; the millisecond clock \<^verbatim>\<open>Date.now()\<close> and rounded
  percentages are integers. The rounding error of the doubles is outside the model.
  Where the source can produce \<^verbatim>\<open>-Infinity\<close> or NaN the case is written out.
\<close>

definition js_round :: "real \<Rightarrow> int" where
  \<comment> \<open>\<^verbatim>\<open>Math.round\<close>: the nearest integer, a half rounded upwards.\<close>
  "js_round v = \<lfloor>v + 1 / 2\<rfloor>"

datatype jsnum = Num real | NaN

text \<open>
  \<^typ>\<open>jsnum\<close> is used where the source can produce NaN from the values it receives:
  the RMS of an audio buffer and the level computed from it.
\<close>

section \<open>App.js: the sound-level meter\<close>

definition soundLevelToPercentage :: "real \<Rightarrow> int" where
  "soundLevelToPercentage soundLevel =
     (if soundLevel \<le> 0 then 0
      else js_round (min 100 (max 0 ((soundLevel / 80) * 100))))"

record app_state =
  isRecording :: bool
  currentDecibels :: int
  averageDecibels :: int
  decibelHistory :: "int list"
  rawSoundLevel :: real

definition newHistory :: "int list \<Rightarrow> int \<Rightarrow> int list" where
  \<comment> \<open>\<^verbatim>\<open>[...prev, percentage]\<close>, then one \<^verbatim>\<open>shift()\<close> when longer than 50.\<close>
  "newHistory prev percentage =
     (let h = prev @ [percentage] in if length h > 50 then tl h else h)"

definition average :: "int list \<Rightarrow> real" where
  \<comment> \<open>\<^verbatim>\<open>reduce((sum, val) => sum + val, 0) / length\<close>\<close>
  "average h = real_of_int (foldl (+) 0 h) / real (length h)"

definition onNewFrame :: "real \<Rightarrow> real \<Rightarrow> app_state \<Rightarrow> app_state" where
  \<comment> \<open>The listener of \<^verbatim>\<open>SoundLevel.onNewFrame\<close>; \<^verbatim>\<open>data.value || 0\<close> and
      \<^verbatim>\<open>data.rawValue || 0\<close> are the identity on real numbers.\<close>
  "onNewFrame val rawValue s =
     (let soundLevel = val;
          rawDb = rawValue;
          percentage = soundLevelToPercentage soundLevel;
          h = newHistory (decibelHistory s) percentage
      in s\<lparr>rawSoundLevel := rawDb,
            currentDecibels := percentage,
            decibelHistory := h,
            averageDecibels := js_round (average h)\<rparr>)"

definition startRecording_App :: "app_state \<Rightarrow> app_state" where
  \<comment> \<open>With the permission granted: monitoring starts on an empty history.\<close>
  "startRecording_App s = s\<lparr>isRecording := True, decibelHistory := []\<rparr>"

fun frames :: "(real \<times> real) list \<Rightarrow> app_state \<Rightarrow> app_state" where
  "frames [] s = s"
| "frames ((v, r) # fs) s = frames fs (onNewFrame v r s)"

section \<open>The voice graph: state shared by DbGraph.jsx and its chart-kit variant\<close>

text \<open>
  Both \<^verbatim>\<open>VoiceDBGraph\<close> components keep the same React state and refs. A point of the
  waveform is \<^verbatim>\<open>{x, y, timestamp}\<close> (the chart-kit variant stores no timestamp).
  \<^verbatim>\<open>timeoutRef\<close> is modelled by whether a timeout is pending. The callbacks
  \<^verbatim>\<open>onSpeechTimeUpdate\<close> and \<^verbatim>\<open>onAverageUpdate\<close>, the console and the pulse animation
  only notify and are left out.
\<close>

record point =
  px :: real
  py :: real
  ptimestamp :: "int option"

record vstate =
  waveformData :: "point list"
  running :: bool
  time :: real
  averageDB :: real
  currentDB :: real
  recordingDuration :: real
  isPaused :: bool
  startTimeRef :: int
  lastCurrentUpdateRef :: int
  timeoutRef :: bool
  activeSpeechTimeRef :: real
  audioDataRef :: "real list"

definition initial_state :: vstate where
  \<comment> \<open>The values of \<^verbatim>\<open>useState\<close> and \<^verbatim>\<open>useRef\<close> at mount.\<close>
  "initial_state =
     \<lparr>waveformData = [], running = False, time = 0, averageDB = 0, currentDB = 0,
      recordingDuration = 0, isPaused = False, startTimeRef = 0, lastCurrentUpdateRef = 0,
      timeoutRef = False, activeSpeechTimeRef = 0, audioDataRef = []\<rparr>"

definition sum_y :: "point list \<Rightarrow> real" where
  \<comment> \<open>\<^verbatim>\<open>points.reduce((acc, point) => acc + point.y, 0)\<close>\<close>
  "sum_y ps = foldl (\<lambda>acc p. acc + py p) 0 ps"

definition seconds_since :: "int \<Rightarrow> int \<Rightarrow> real" where
  \<comment> \<open>\<^verbatim>\<open>(Date.now() - startTimeRef.current) / 1000\<close>\<close>
  "seconds_since now start = real_of_int (now - start) / 1000"

section \<open>DbGraph.jsx\<close>

definition calculateRMS :: "int list \<Rightarrow> jsnum" where
  \<comment> \<open>Over the \<^verbatim>\<open>Int16Array\<close> received. For the empty buffer the sum is 0 and
      \<^verbatim>\<open>Math.sqrt(0 / 0)\<close> is NaN.\<close>
  "calculateRMS buffer =
     (if length buffer = 0 then NaN
      else Num (sqrt (real_of_int (foldl (\<lambda>sum b. sum + b * b) 0 buffer)
                      / real (length buffer))))"

definition normalizedDB :: "jsnum \<Rightarrow> jsnum" where
  \<comment> \<open>\<^verbatim>\<open>Math.max(0, Math.min(100, 20 * Math.log10(rms / 32767) + 90))\<close>. NaN goes
      through \<^verbatim>\<open>Math.log10\<close>, \<^verbatim>\<open>Math.min\<close> and \<^verbatim>\<open>Math.max\<close> unchanged; the logarithm of
      a negative number is NaN; at 0 it is \<^verbatim>\<open>-Infinity\<close>, which the clamp sends to 0.\<close>
  "normalizedDB rms =
     (case rms of
        NaN \<Rightarrow> NaN
      | Num r \<Rightarrow>
          if r < 0 then NaN
          else if r = 0 then Num 0
          else Num (max 0 (min 100 (20 * log 10 (r / 32767) + 90))))"

definition pushPoint_DbGraph :: "real \<Rightarrow> real \<Rightarrow> real \<Rightarrow> int \<Rightarrow> vstate \<Rightarrow> vstate" where
  \<comment> \<open>The \<^verbatim>\<open>'data'\<close> handler from \<^verbatim>\<open>setCurrentDB\<close> on, for a level and a session time.\<close>
  "pushPoint_DbGraph duration level currentTime now s =
     (let newPoint = \<lparr>px = currentTime, py = level, ptimestamp = Some now\<rparr>;
          updated = waveformData s @ [newPoint];
          windowStart = max 0 (currentTime - (if duration = 0 then 30 else duration));
          filteredForDisplay = filter (\<lambda>p. px p \<ge> windowStart) updated;
          activePoints = filter (\<lambda>p. py p \<ge> 8) filteredForDisplay
      in s\<lparr>currentDB := level,
            waveformData := filteredForDisplay,
            averageDB :=
              (if length activePoints > 0
               then sum_y activePoints / real (length activePoints)
               else averageDB s),
            activeSpeechTimeRef :=
              (if level > 12 then activeSpeechTimeRef s + 1 / 10 else activeSpeechTimeRef s),
            time := currentTime\<rparr>)"


definition onData_DbGraph :: "real \<Rightarrow> int list \<Rightarrow> int \<Rightarrow> vstate \<Rightarrow> vstate option" where
  \<comment> \<open>The \<^verbatim>\<open>'data'\<close> handler for the buffer received at \<^verbatim>\<open>Date.now() = now\<close>. When the
      level is NaN the handler stores NaN as the current level and as the \<^verbatim>\<open>y\<close> of the
      new point; the state of reals has no such value, and the result is \<open>None\<close>.\<close>
  "onData_DbGraph duration buffer now s =
     (case normalizedDB (calculateRMS buffer) of
        NaN \<Rightarrow> None
      | Num level \<Rightarrow>
          Some (pushPoint_DbGraph duration level (seconds_since now (startTimeRef s)) now s))"

definition startAudio_DbGraph :: "real \<Rightarrow> bool \<Rightarrow> bool \<Rightarrow> int \<Rightarrow> vstate \<Rightarrow> bool \<times> vstate" where
  \<comment> \<open>\<^verbatim>\<open>hasPermission\<close>: the answer of the permission request; \<^verbatim>\<open>starts\<close>: whether
      \<^verbatim>\<open>AudioRecord.start()\<close> returns rather than throws into the \<^verbatim>\<open>catch\<close>.\<close>
  "startAudio_DbGraph duration hasPermission starts now s =
     (if \<not> hasPermission then (False, s)
      else
        let s1 = s\<lparr>time := 0, recordingDuration := 0, activeSpeechTimeRef := 0,
                   audioDataRef := [], waveformData := [], startTimeRef := now,
                   running := True, isPaused := False\<rparr>
        in if \<not> starts then (False, s1\<lparr>running := False\<rparr>)
           else (True, if duration \<noteq> 0 \<and> duration > 0 then s1\<lparr>timeoutRef := True\<rparr> else s1))"

definition stopAudio_DbGraph :: "bool \<Rightarrow> real \<Rightarrow> int \<Rightarrow> vstate \<Rightarrow> real \<times> vstate" where
  \<comment> \<open>\<^verbatim>\<open>stops\<close>: whether \<^verbatim>\<open>await AudioRecord.stop()\<close> returns rather than throws into the
      \<^verbatim>\<open>catch\<close>. \<^verbatim>\<open>seenAverageDB\<close>: the \<^verbatim>\<open>averageDB\<close> of the render that created this
      \<^verbatim>\<open>stopAudio\<close>, which is what the function reads. The first component is the value
      returned, which \<^verbatim>\<open>onAverageUpdate\<close> receives too on the path without an exception.\<close>
  "stopAudio_DbGraph stops seenAverageDB now s =
     (let s1 = s\<lparr>running := False, timeoutRef := False\<rparr>
      in if \<not> stops then (seenAverageDB, s1\<lparr>running := False\<rparr>)
         else
           let s2 = s1\<lparr>recordingDuration := seconds_since now (startTimeRef s1)\<rparr>;
               finalAverageDB = seenAverageDB
           in if activeSpeechTimeRef s2 < 1 then (0, s2\<lparr>averageDB := 0\<rparr>)
              else (finalAverageDB, s2))"

definition stopRecording_DbGraph :: "bool \<Rightarrow> int \<Rightarrow> vstate \<Rightarrow> real \<times> vstate" where
  \<comment> \<open>\<^verbatim>\<open>stopRecording\<close> of the handle, which is rebuilt at every render: its
      \<^verbatim>\<open>stopAudio\<close> sees the current \<^verbatim>\<open>averageDB\<close>. The timeout that \<^verbatim>\<open>startAudio\<close> arms
      calls the \<^verbatim>\<open>stopAudio\<close> of the render in which \<^verbatim>\<open>startAudio\<close> ran, which sees the
      average at that call.\<close>
  "stopRecording_DbGraph stops now s = stopAudio_DbGraph stops (averageDB s) now s"

definition clearData_DbGraph :: "vstate \<Rightarrow> vstate" where
  "clearData_DbGraph s =
     s\<lparr>waveformData := [], time := 0, recordingDuration := 0, activeSpeechTimeRef := 0,
       startTimeRef := 0, averageDB := 0, currentDB := 0, audioDataRef := [],
       isPaused := False, timeoutRef := False\<rparr>"

section \<open>The chart-kit variant of the voice graph (simulated levels)\<close>

definition dbOffset :: real where
  "dbOffset = 50"

definition simulatedAmplitude :: "real \<Rightarrow> real \<Rightarrow> real" where
  \<comment> \<open>\<^verbatim>\<open>Math.random() * 0.5 + (Math.random() > 0.7 ? 0.3 : 0.1)\<close>; \<^verbatim>\<open>r1\<close> and \<^verbatim>\<open>r2\<close>
      are the two draws of \<^verbatim>\<open>Math.random()\<close>, each in \<open>[0, 1)\<close>.\<close>
  "simulatedAmplitude r1 r2 = r1 * (1 / 2) + (if r2 > 7 / 10 then 3 / 10 else 1 / 10)"

definition processAudioData :: "real \<Rightarrow> real \<Rightarrow> real" where
  \<comment> \<open>\<^verbatim>\<open>rms || 0.0001\<close> replaces an amplitude of 0.\<close>
  "processAudioData r1 r2 =
     (let rms = simulatedAmplitude r1 r2;
          dB = 20 * log 10 (if rms = 0 then 1 / 10000 else rms);
          normalizedDB = max 0 (dB + 100 - dbOffset)
      in normalizedDB)"

definition stopAudio_part001 :: "real \<Rightarrow> int \<Rightarrow> vstate \<Rightarrow> real \<times> vstate" where
  \<comment> \<open>\<^verbatim>\<open>seenAverageDB\<close>: the \<^verbatim>\<open>averageDB\<close> of the render that created this \<^verbatim>\<open>stopAudio\<close>.\<close>
  "stopAudio_part001 seenAverageDB now s =
     (let s1 = s\<lparr>running := False, timeoutRef := False\<rparr>;
          s2 = s1\<lparr>recordingDuration := seconds_since now (startTimeRef s1)\<rparr>;
          finalAverageDB = seenAverageDB
      in if activeSpeechTimeRef s2 < 1 then (0, s2\<lparr>averageDB := 0\<rparr>)
         else (finalAverageDB, s2))"

definition stopRecording_part001 :: "int \<Rightarrow> vstate \<Rightarrow> real \<times> vstate" where
  \<comment> \<open>Through the handle: the current \<^verbatim>\<open>averageDB\<close> is seen.\<close>
  "stopRecording_part001 now s = stopAudio_part001 (averageDB s) now s"


definition startAudio_part001 :: "real \<Rightarrow> bool \<Rightarrow> bool \<Rightarrow> int \<Rightarrow> vstate \<Rightarrow> bool \<times> vstate" where
  "startAudio_part001 duration hasPermission starts now s =
     (if \<not> hasPermission then (False, s)
      else
        let s1 = s\<lparr>time := 0, recordingDuration := 0, activeSpeechTimeRef := 0,
                   audioDataRef := [], startTimeRef := now, running := True\<rparr>
        in if \<not> starts then (False, s1)
           else (True, if duration = 5 then s1\<lparr>timeoutRef := True\<rparr> else s1))"

definition clearData_part001 :: "vstate \<Rightarrow> vstate" where
  "clearData_part001 s =
     s\<lparr>waveformData := [], time := 0, recordingDuration := 0, activeSpeechTimeRef := 0,
       startTimeRef := 0, averageDB := 0, currentDB := 0, audioDataRef := [],
       timeoutRef := False\<rparr>"

definition pushPoint_part001 :: "real \<Rightarrow> real \<Rightarrow> real \<Rightarrow> vstate \<Rightarrow> vstate" where
  \<comment> \<open>The \<^verbatim>\<open>setWaveformData\<close> updater of the recording interval.\<close>
  "pushPoint_part001 duration level currentElapsedTime s =
     (let newPoint = \<lparr>px = currentElapsedTime, py = level, ptimestamp = None\<rparr>;
          updated = filter (\<lambda>p. px p \<ge> currentElapsedTime - duration)
                      (waveformData s @ [newPoint]);
          validPoints = filter (\<lambda>point. py point < 1 \<or> py point > 10) updated;
          sum = sum_y validPoints;
          avg = (if length validPoints > 0 then sum / real (length validPoints) else 0)
      in s\<lparr>waveformData := updated,
            averageDB := avg,
            activeSpeechTimeRef :=
              (if level > 10 then activeSpeechTimeRef s + 5 / 100 else activeSpeechTimeRef s)\<rparr>)"

definition tick_part001 :: "real \<Rightarrow> real \<Rightarrow> real \<Rightarrow> real \<Rightarrow> int \<Rightarrow> vstate \<Rightarrow> vstate" where
  \<comment> \<open>One run of the 50 ms interval callback. The interval lives while \<^verbatim>\<open>running\<close>
      holds; its \<^verbatim>\<open>stopAudio\<close> is the one of the render that set the interval up, so
      \<^verbatim>\<open>seenAverageDB\<close> is the average when the session started.\<close>
  "tick_part001 duration seenAverageDB r1 r2 now s =
     (if \<not> running s then s
      else
        let currentElapsedTime = seconds_since now (startTimeRef s)
        in if duration \<noteq> 0 \<and> currentElapsedTime \<ge> duration
           then snd (stopAudio_part001 seenAverageDB now s)
           else
             let level = processAudioData r1 r2;
                 s1 = (if lastCurrentUpdateRef s = 0 \<or> now - lastCurrentUpdateRef s > 200
                       then s\<lparr>currentDB := level, lastCurrentUpdateRef := now\<rparr>
                       else s);
                 s2 = s1\<lparr>time := currentElapsedTime\<rparr>
             in pushPoint_part001 duration level currentElapsedTime s2)"

section \<open>SimpleDBGraph: the window of the third variant\<close>

definition updateWaveform_Simple :: "real \<Rightarrow> real \<Rightarrow> real \<Rightarrow> int \<Rightarrow> point list \<Rightarrow> point list" where
  \<comment> \<open>The \<^verbatim>\<open>setWaveformData\<close> updater of \<^verbatim>\<open>startRecording\<close>.\<close>
  "updateWaveform_Simple duration currentTime dbValue now prev =
     (let newPoint = \<lparr>px = currentTime, py = dbValue, ptimestamp = Some now\<rparr>;
          updated = prev @ [newPoint];
          timeWindow = duration
      in filter (\<lambda>point. px point \<ge> max 0 (currentTime - timeWindow)) updated)"

section \<open>Observations and runs\<close>

record snapshot =
  currentLevel :: real
  runningAverage :: real
  activeDurationSeconds :: real
  elapsedSeconds :: real
  sampleCount :: nat

definition snapshot_of :: "vstate \<Rightarrow> snapshot" where
  \<comment> \<open>What the component shows and its getters return: \<^verbatim>\<open>currentDB\<close>, \<^verbatim>\<open>averageDB\<close>,
      \<^verbatim>\<open>activeSpeechTimeRef.current\<close>, \<^verbatim>\<open>time\<close> and the number of waveform points.\<close>
  "snapshot_of s =
     \<lparr>currentLevel = currentDB s, runningAverage = averageDB s,
      activeDurationSeconds = activeSpeechTimeRef s, elapsedSeconds = time s,
      sampleCount = length (waveformData s)\<rparr>"

type_synonym sample = "real \<times> real"

fun pushAll_DbGraph :: "real \<Rightarrow> int \<Rightarrow> sample list \<Rightarrow> vstate \<Rightarrow> vstate" where
  \<comment> \<open>Samples \<open>(timeSeconds, level)\<close> pushed in order; the \<^verbatim>\<open>timestamp\<close> of a point is
      never read, and is the same \<open>now\<close> for all of them here.\<close>
  "pushAll_DbGraph duration now [] s = s"
| "pushAll_DbGraph duration now ((t, l) # xs) s =
     pushAll_DbGraph duration now xs (pushPoint_DbGraph duration l t now s)"

fun pushAll_part001 :: "real \<Rightarrow> sample list \<Rightarrow> vstate \<Rightarrow> vstate" where
  "pushAll_part001 duration [] s = s"
| "pushAll_part001 duration ((t, l) # xs) s =
     pushAll_part001 duration xs (pushPoint_part001 duration l t s)"

fun pushAll_Simple :: "real \<Rightarrow> int \<Rightarrow> sample list \<Rightarrow> point list \<Rightarrow> point list" where
  "pushAll_Simple duration now [] w = w"
| "pushAll_Simple duration now ((t, l) # xs) w =
     pushAll_Simple duration now xs (updateWaveform_Simple duration t l now w)"

definition mkpoint :: "int option \<Rightarrow> sample \<Rightarrow> point" where
  \<comment> \<open>The point stored for a sample \<open>(timeSeconds, level)\<close>.\<close>
  "mkpoint ts x = \<lparr>px = fst x, py = snd x, ptimestamp = ts\<rparr>"





section \<open>Properties of the sound-level meter\<close>

lemma foldl_plus_sum_list: "foldl (+) a h = a + sum_list (h :: int list)"
  by (induction h arbitrary: a) simp_all

lemma average_sum_list: "average h = real_of_int (sum_list h) / real (length h)"
  by (simp add: average_def foldl_plus_sum_list)

lemma js_round_clamped: "0 \<le> v \<Longrightarrow> v \<le> 100 \<Longrightarrow> 0 \<le> js_round v \<and> js_round v \<le> 100"
  unfolding js_round_def by linarith

lemma js_round_mono: "v \<le> w \<Longrightarrow> js_round v \<le> js_round w"
  unfolding js_round_def by (rule floor_mono) simp

lemma soundLevelToPercentage_range:
  "0 \<le> soundLevelToPercentage v \<and> soundLevelToPercentage v \<le> 100"
proof (cases "v \<le> 0")
  case True
  then show ?thesis by (simp add: soundLevelToPercentage_def)
next
  case False
  have "0 \<le> min 100 (max 0 (v / 80 * 100))" and "min 100 (max 0 (v / 80 * 100)) \<le> 100"
    by simp_all
  from js_round_clamped [OF this] False show ?thesis
    by (simp only: soundLevelToPercentage_def if_False)
qed

lemma sum_list_bounds:
  "\<forall>x \<in> set h. 0 \<le> x \<and> x \<le> (100::int) \<Longrightarrow>
   0 \<le> sum_list h \<and> sum_list h \<le> 100 * int (length h)"
  by (induction h) auto

lemma average_range:
  assumes "h \<noteq> []" and "\<forall>x \<in> set h. 0 \<le> x \<and> x \<le> (100::int)"
  shows "0 \<le> average h \<and> average h \<le> 100"
proof -
  have n: "0 < real (length h)" using assms(1) by simp
  from sum_list_bounds [OF assms(2)]
  have lo: "0 \<le> sum_list h" and hi: "sum_list h \<le> 100 * int (length h)" by simp_all
  have "real_of_int (sum_list h) \<le> real_of_int (100 * int (length h))"
    using hi by (simp only: of_int_le_iff)
  then have hi': "real_of_int (sum_list h) \<le> 100 * real (length h)" by simp
  have lo': "0 \<le> real_of_int (sum_list h)" using lo by simp
  show ?thesis using n lo' hi' by (simp add: average_sum_list field_simps)
qed

text \<open>One frame on a history that holds the last 50 readings leaves it so.\<close>

lemma newHistory_drop:
  "newHistory (drop (length ps - 50) ps) p = drop (length (ps @ [p]) - 50) (ps @ [p])"
proof (cases "length ps < 50")
  case True
  then show ?thesis by (simp add: newHistory_def Let_def)
next
  case False
  define k where "k = length ps - 50"
  have len: "length ps = k + 50" using False by (simp add: k_def)
  have ne: "drop k ps \<noteq> []" using len by simp
  have "newHistory (drop k ps) p = tl (drop k ps @ [p])"
    by (simp add: newHistory_def Let_def len)
  also have "\<dots> = drop (Suc k) ps @ [p]"
    using ne by (simp add: drop_Suc tl_drop)
  also have "\<dots> = drop (Suc k) (ps @ [p])"
    by (simp add: len)
  finally have step: "newHistory (drop k ps) p = drop (Suc k) (ps @ [p])" .
  have e1: "length ps - 50 = k" by (simp add: k_def)
  have e2: "length (ps @ [p]) - 50 = Suc k" using False by (simp add: k_def)
  show ?thesis using step by (simp only: e1 e2)
qed

lemma frames_snoc: "frames (fs @ [(v, r)]) s = onNewFrame v r (frames fs s)"
  by (induction fs arbitrary: s) auto

lemma frames_history:
  "decibelHistory s = [] \<Longrightarrow>
   decibelHistory (frames fs s) =
     drop (length fs - 50) (map (\<lambda>f. soundLevelToPercentage (fst f)) fs)"
proof (induction fs rule: rev_induct)
  case Nil
  then show ?case by simp
next
  case (snoc f fs)
  obtain v r where f: "f = (v, r)" by (cases f)
  let ?ps = "map (\<lambda>f. soundLevelToPercentage (fst f)) fs"
  have ih: "decibelHistory (frames fs s) = drop (length ?ps - 50) ?ps"
    using snoc by simp
  have "decibelHistory (frames (fs @ [f]) s)
        = newHistory (decibelHistory (frames fs s)) (soundLevelToPercentage v)"
    by (simp add: f frames_snoc onNewFrame_def Let_def)
  also have "\<dots> = drop (length (?ps @ [soundLevelToPercentage v]) - 50)
                     (?ps @ [soundLevelToPercentage v])"
    unfolding ih by (rule newHistory_drop)
  finally show ?case by (simp add: f)
qed

lemma frames_average:
  "averageDecibels (frames (fs @ [(v, r)]) s) =
     js_round (average (decibelHistory (frames (fs @ [(v, r)]) s)))"
  by (simp add: frames_snoc onNewFrame_def Let_def)

text \<open>
  Claim C10. In App.js, after every frame received since \<^verbatim>\<open>startRecording\<close> the history
  is the last 50 percentages (all of them while there are fewer), so it never holds more
  than 50; \<^verbatim>\<open>averageDecibels\<close> is the rounded arithmetic mean of exactly the readings
  retained, and lies between 0 and 100. The frames are \<open>fs\<close> followed by the one just
  received, \<open>(v, r)\<close>.
\<close>

theorem decibelHistory_last_50_and_average:
  "decibelHistory (frames (fs @ [(v, r)]) (startRecording_App s)) =
     drop (length (fs @ [(v, r)]) - 50)
       (map (\<lambda>f. soundLevelToPercentage (fst f)) (fs @ [(v, r)]))
   \<and> length (decibelHistory (frames (fs @ [(v, r)]) (startRecording_App s))) \<le> 50
   \<and> averageDecibels (frames (fs @ [(v, r)]) (startRecording_App s)) =
       js_round
         (real_of_int (sum_list (decibelHistory (frames (fs @ [(v, r)]) (startRecording_App s))))
          / real (length (decibelHistory (frames (fs @ [(v, r)]) (startRecording_App s)))))
   \<and> 0 \<le> averageDecibels (frames (fs @ [(v, r)]) (startRecording_App s))
   \<and> averageDecibels (frames (fs @ [(v, r)]) (startRecording_App s)) \<le> 100"
proof -
  let ?s' = "frames (fs @ [(v, r)]) (startRecording_App s)"
  let ?ps = "map (\<lambda>f. soundLevelToPercentage (fst f)) (fs @ [(v, r)])"
  have h: "decibelHistory ?s' = drop (length (fs @ [(v, r)]) - 50) ?ps"
    by (rule frames_history) (simp add: startRecording_App_def)
  have len: "length (decibelHistory ?s') \<le> 50" unfolding h by simp
  have ne: "decibelHistory ?s' \<noteq> []" unfolding h by simp
  have "set (decibelHistory ?s') \<subseteq> set ?ps" unfolding h by (rule set_drop_subset)
  then have rng: "\<forall>x \<in> set (decibelHistory ?s'). 0 \<le> x \<and> x \<le> 100"
    using soundLevelToPercentage_range by auto
  have avg: "averageDecibels ?s' = js_round (average (decibelHistory ?s'))"
    by (rule frames_average)
  from average_range [OF ne rng] js_round_clamped
  have "0 \<le> js_round (average (decibelHistory ?s'))
        \<and> js_round (average (decibelHistory ?s')) \<le> 100"
    by blast
  with h len avg show ?thesis by (simp only: average_sum_list)
qed

theorem decibelHistory_last_50_and_average_witness:
  "decibelHistory
     (frames ([(40, 0), (0, 0)] @ [(200, 1)])
        (startRecording_App
           \<lparr>isRecording = False, currentDecibels = 0, averageDecibels = 0,
            decibelHistory = [7], rawSoundLevel = 0\<rparr>)) = [50, 0, 100]
   \<and> averageDecibels
       (frames ([(40, 0), (0, 0)] @ [(200, 1)])
          (startRecording_App
             \<lparr>isRecording = False, currentDecibels = 0, averageDecibels = 0,
              decibelHistory = [7], rawSoundLevel = 0\<rparr>)) = 50"
  using decibelHistory_last_50_and_average
    [of "[(40, 0), (0, 0)]" 200 1
        "\<lparr>isRecording = False, currentDecibels = 0, averageDecibels = 0,
          decibelHistory = [7], rawSoundLevel = 0\<rparr>"]
  by (simp add: soundLevelToPercentage_def js_round_def)

section \<open>Properties of the pushes\<close>

lemma foldl_py_sum_list: "foldl (\<lambda>acc p. acc + py p) a ps = a + sum_list (map py ps)"
  by (induction ps arbitrary: a) simp_all

lemma sum_y_sum_list: "sum_y ps = sum_list (map py ps)"
  by (simp add: sum_y_def foldl_py_sum_list)

lemma waveformData_pushPoint_DbGraph:
  "waveformData (pushPoint_DbGraph d l t now s) =
     filter (\<lambda>p. max 0 (t - (if d = 0 then 30 else d)) \<le> px p)
       (waveformData s @ [\<lparr>px = t, py = l, ptimestamp = Some now\<rparr>])"
  by (simp add: pushPoint_DbGraph_def Let_def)

lemma waveformData_pushPoint_part001:
  "waveformData (pushPoint_part001 d l t s) =
     filter (\<lambda>p. t - d \<le> px p) (waveformData s @ [\<lparr>px = t, py = l, ptimestamp = None\<rparr>])"
  by (simp add: pushPoint_part001_def Let_def)


section \<open>Properties of the simulated level\<close>

lemma processAudioData_amplitude:
  "0 \<le> r1 \<Longrightarrow>
   processAudioData r1 r2 = max 0 (20 * log 10 (simulatedAmplitude r1 r2) + 50)"
proof -
  assume "0 \<le> r1"
  then have "simulatedAmplitude r1 r2 \<noteq> 0" by (simp add: simulatedAmplitude_def)
  then show ?thesis
    by (simp add: processAudioData_def Let_def dbOffset_def)
qed

lemma simulatedAmplitude_bounds:
  "0 \<le> r1 \<Longrightarrow> 1 / 10 \<le> simulatedAmplitude r1 r2"
  "r1 < 1 \<Longrightarrow> simulatedAmplitude r1 r2 < 8 / 10"
  by (simp_all add: simulatedAmplitude_def)

lemma simulatedAmplitude_mono:
  "r1 \<le> r1' \<Longrightarrow> r2 \<le> r2' \<Longrightarrow> simulatedAmplitude r1 r2 \<le> simulatedAmplitude r1' r2'"
  by (simp add: simulatedAmplitude_def)

lemma processAudioData_range:
  assumes "0 \<le> r1" and "r1 < 1"
  shows "0 \<le> processAudioData r1 r2 \<and> processAudioData r1 r2 \<le> 50"
proof -
  have pos: "0 < simulatedAmplitude r1 r2"
    using simulatedAmplitude_bounds(1) [OF assms(1), of r2] by simp
  have "simulatedAmplitude r1 r2 < 1"
    using simulatedAmplitude_bounds(2) [OF assms(2), of r2] by simp
  then have "log 10 (simulatedAmplitude r1 r2) < 0" using pos by simp
  then show ?thesis by (simp add: processAudioData_amplitude [OF assms(1)])
qed

lemma processAudioData_mono:
  assumes "0 \<le> r1" and "r1 \<le> r1'" and "r2 \<le> r2'"
  shows "processAudioData r1 r2 \<le> processAudioData r1' r2'"
proof -
  have r1': "0 \<le> r1'" using assms by simp
  have pos: "0 < simulatedAmplitude r1 r2"
    using simulatedAmplitude_bounds(1) [OF assms(1), of r2] by simp
  have pos': "0 < simulatedAmplitude r1' r2'"
    using simulatedAmplitude_bounds(1) [OF r1', of r2'] by simp
  have ten: "1 < (10::real)" by simp
  have "log 10 (simulatedAmplitude r1 r2) \<le> log 10 (simulatedAmplitude r1' r2')"
    using simulatedAmplitude_mono [OF assms(2,3)]
    by (simp only: log_le_cancel_iff [OF ten pos pos'])
  then have "20 * log 10 (simulatedAmplitude r1 r2) + 50
             \<le> 20 * log 10 (simulatedAmplitude r1' r2') + 50"
    by simp
  then have "max 0 (20 * log 10 (simulatedAmplitude r1 r2) + 50)
             \<le> max 0 (20 * log 10 (simulatedAmplitude r1' r2') + 50)"
    by (intro max.mono order_refl)
  then show ?thesis
    by (simp only: processAudioData_amplitude [OF assms(1)] processAudioData_amplitude [OF r1'])
qed


section \<open>The interval callback in terms of the push\<close>


lemma tick_part001_auto_stop:
  "running s \<Longrightarrow> d \<noteq> 0 \<Longrightarrow> d \<le> seconds_since now (startTimeRef s) \<Longrightarrow>
   tick_part001 d a r1 r2 now s = snd (stopAudio_part001 a now s)"
  by (simp add: tick_part001_def)






section \<open>Properties of the voice graph\<close>

lemma pushAll_DbGraph_active:
  "activeSpeechTimeRef (pushAll_DbGraph d now xs s) =
     activeSpeechTimeRef s + real (length (filter (\<lambda>x. 12 < snd x) xs)) / 10"
  by (induction xs arbitrary: s) (auto simp: pushPoint_DbGraph_def Let_def)

lemma pushAll_part001_active:
  "activeSpeechTimeRef (pushAll_part001 d xs s) =
     activeSpeechTimeRef s + real (length (filter (\<lambda>x. 10 < snd x) xs)) * (5 / 100)"
  by (induction xs arbitrary: s) (auto simp: pushPoint_part001_def Let_def algebra_simps)

text \<open>
  Claim C5 (as amended). A pushed sample whose level is above the activity threshold
  (12 in DbGraph.jsx, 10 in the chart-kit variant) adds a fixed tick to the active
  speech time (0.1 s and 0.05 s), whatever its time and the time of the sample before;
  a sample at or below the threshold leaves it unchanged. Over any samples pushed the
  active speech time grows by one tick per sample above the threshold, so it never
  decreases.
\<close>

theorem activeSpeechTime_fixed_tick:
  "activeSpeechTimeRef (pushPoint_DbGraph d l t now s) =
     (if 12 < l then activeSpeechTimeRef s + 1 / 10 else activeSpeechTimeRef s)
   \<and> activeSpeechTimeRef (pushPoint_part001 d l t s) =
     (if 10 < l then activeSpeechTimeRef s + 5 / 100 else activeSpeechTimeRef s)
   \<and> activeSpeechTimeRef (pushAll_DbGraph d now xs s) =
       activeSpeechTimeRef s + real (length (filter (\<lambda>x. 12 < snd x) xs)) / 10
   \<and> activeSpeechTimeRef (pushAll_part001 d xs s) =
       activeSpeechTimeRef s + real (length (filter (\<lambda>x. 10 < snd x) xs)) * (5 / 100)
   \<and> activeSpeechTimeRef s \<le> activeSpeechTimeRef (pushAll_DbGraph d now xs s)
   \<and> activeSpeechTimeRef s \<le> activeSpeechTimeRef (pushAll_part001 d xs s)"
  by (simp add: pushAll_DbGraph_active pushAll_part001_active)
     (simp add: pushPoint_DbGraph_def pushPoint_part001_def Let_def)

theorem activeSpeechTime_fixed_tick_witness:
  "activeSpeechTimeRef
     (pushAll_DbGraph 50 100 [(0, 50), (1, 5), (3, 13)] initial_state) = 2 / 10
   \<and> activeSpeechTimeRef (pushPoint_part001 50 11 7 initial_state) = 5 / 100"
  using activeSpeechTime_fixed_tick
      [of 50 11 7 100 initial_state "[(0, 50), (1, 5), (3, 13)]"]
  by (simp add: initial_state_def)

text \<open>
  The claim as stated fails: two loud samples one second apart add 0.1 s each in
  DbGraph.jsx, not the second that separates them.
\<close>

theorem activeSpeechTime_delta_counterexample:
  "activeSpeechTimeRef (pushPoint_DbGraph 50 50 1 1000 (pushPoint_DbGraph 50 50 0 0 initial_state))
     - activeSpeechTimeRef (pushPoint_DbGraph 50 50 0 0 initial_state) = 1 / 10
   \<and> (1::real) / 10 \<noteq> 1 - 0
   \<and> activeSpeechTimeRef (pushPoint_part001 50 50 1 (pushPoint_part001 50 50 0 initial_state))
     - activeSpeechTimeRef (pushPoint_part001 50 50 0 initial_state) = 5 / 100"
  by (simp add: pushPoint_DbGraph_def pushPoint_part001_def initial_state_def Let_def)


lemma pushAll_part001_snoc:
  "pushAll_part001 d (xs @ [x]) s = pushPoint_part001 d (snd x) (fst x) (pushAll_part001 d xs s)"
  by (induction xs arbitrary: s) (cases x, auto)

lemma pushAll_DbGraph_snoc:
  "pushAll_DbGraph d now (xs @ [x]) s =
     pushPoint_DbGraph d (snd x) (fst x) now (pushAll_DbGraph d now xs s)"
  by (induction xs arbitrary: s) (cases x, auto)

lemma pushAll_Simple_snoc:
  "pushAll_Simple d now (xs @ [x]) w =
     updateWaveform_Simple d (fst x) (snd x) now (pushAll_Simple d now xs w)"
  by (induction xs arbitrary: w) (cases x, auto)

lemma filter_cut:
  "c \<le> c' \<Longrightarrow>
   filter (\<lambda>p. c' \<le> px p) (filter (\<lambda>p. c \<le> px p) ps) = filter (\<lambda>p. (c'::real) \<le> px p) ps"
  by (induction ps) auto

lemma sorted_snoc_last:
  "sorted (map fst (xs @ [x])) \<Longrightarrow> xs \<noteq> [] \<Longrightarrow> fst (last xs) \<le> (fst x :: real)"
  by (simp add: sorted_append)

text \<open>
  The window after pushing an ordered sequence onto any window \<open>w0\<close>, by a cut-off that
  does not decrease: the one step that all three variants share. \<open>w\<close> is the window
  before the last push.
\<close>

lemma window_step:
  assumes mono: "\<And>a b. a \<le> b \<Longrightarrow> cutoff a \<le> cutoff b"
    and sorted: "sorted (map fst (xs @ [x]))"
    and ih: "xs \<noteq> [] \<Longrightarrow>
             w = filter (\<lambda>p. cutoff (fst (last xs)) \<le> px p) (w0 @ map (mkpoint ts) xs)"
    and start: "xs = [] \<Longrightarrow> w = w0"
  shows "filter (\<lambda>p. cutoff (fst x) \<le> px p) (w @ [mkpoint ts x]) =
         filter (\<lambda>p. (cutoff (fst (last (xs @ [x]))) :: real) \<le> px p)
           (w0 @ map (mkpoint ts) (xs @ [x]))"
proof (cases "xs = []")
  case True
  then show ?thesis using start by simp
next
  case False
  from sorted_snoc_last [OF sorted False] have "cutoff (fst (last xs)) \<le> cutoff (fst x)"
    by (rule mono)
  then have "filter (\<lambda>p. cutoff (fst x) \<le> px p) w =
             filter (\<lambda>p. cutoff (fst x) \<le> px p) (w0 @ map (mkpoint ts) xs)"
    unfolding ih [OF False] by (rule filter_cut)
  then show ?thesis by simp
qed

lemma window_part001:
  "sorted (map fst xs) \<Longrightarrow> xs \<noteq> [] \<Longrightarrow>
   waveformData (pushAll_part001 d xs s) =
     filter (\<lambda>p. fst (last xs) - d \<le> px p) (waveformData s @ map (mkpoint None) xs)"
proof (induction xs rule: rev_induct)
  case Nil
  then show ?case by simp
next
  case (snoc x xs)
  have ih: "xs \<noteq> [] \<Longrightarrow> waveformData (pushAll_part001 d xs s) =
            filter (\<lambda>p. fst (last xs) - d \<le> px p) (waveformData s @ map (mkpoint None) xs)"
    using snoc by (simp add: sorted_append)
  have start: "xs = [] \<Longrightarrow> waveformData (pushAll_part001 d xs s) = waveformData s"
    by simp
  have pt: "\<lparr>px = fst x, py = snd x, ptimestamp = None\<rparr> = mkpoint None x"
    by (simp add: mkpoint_def)
  show ?case
    unfolding pushAll_part001_snoc waveformData_pushPoint_part001 pt
    by (rule window_step [where cutoff = "\<lambda>t. t - d", OF _ snoc.prems(1) ih start]) simp_all
qed

lemma window_DbGraph:
  "sorted (map fst xs) \<Longrightarrow> xs \<noteq> [] \<Longrightarrow>
   waveformData (pushAll_DbGraph d now xs s) =
     filter (\<lambda>p. max 0 (fst (last xs) - (if d = 0 then 30 else d)) \<le> px p)
       (waveformData s @ map (mkpoint (Some now)) xs)"
proof (induction xs rule: rev_induct)
  case Nil
  then show ?case by simp
next
  case (snoc x xs)
  have ih: "xs \<noteq> [] \<Longrightarrow> waveformData (pushAll_DbGraph d now xs s) =
            filter (\<lambda>p. max 0 (fst (last xs) - (if d = 0 then 30 else d)) \<le> px p)
              (waveformData s @ map (mkpoint (Some now)) xs)"
    using snoc by (simp add: sorted_append)
  have start: "xs = [] \<Longrightarrow> waveformData (pushAll_DbGraph d now xs s) = waveformData s"
    by simp
  have pt: "\<lparr>px = fst x, py = snd x, ptimestamp = Some now\<rparr> = mkpoint (Some now) x"
    by (simp add: mkpoint_def)
  show ?case
    unfolding pushAll_DbGraph_snoc waveformData_pushPoint_DbGraph pt
    by (rule window_step [where cutoff = "\<lambda>t. max 0 (t - (if d = 0 then 30 else d))",
          OF _ snoc.prems(1) ih start]) simp_all
qed

lemma window_Simple:
  "sorted (map fst xs) \<Longrightarrow> xs \<noteq> [] \<Longrightarrow>
   pushAll_Simple d now xs w =
     filter (\<lambda>p. max 0 (fst (last xs) - d) \<le> px p) (w @ map (mkpoint (Some now)) xs)"
proof (induction xs rule: rev_induct)
  case Nil
  then show ?case by simp
next
  case (snoc x xs)
  have ih: "xs \<noteq> [] \<Longrightarrow> pushAll_Simple d now xs w =
            filter (\<lambda>p. max 0 (fst (last xs) - d) \<le> px p) (w @ map (mkpoint (Some now)) xs)"
    using snoc by (simp add: sorted_append)
  have start: "xs = [] \<Longrightarrow> pushAll_Simple d now xs w = w"
    by simp
  have step: "updateWaveform_Simple d (fst x) (snd x) now v =
              filter (\<lambda>p. max 0 (fst x - d) \<le> px p) (v @ [mkpoint (Some now) x])" for v
    by (simp add: updateWaveform_Simple_def Let_def mkpoint_def)
  show ?case
    unfolding pushAll_Simple_snoc step
    by (rule window_step [where cutoff = "\<lambda>t. max 0 (t - d)", OF _ snoc.prems(1) ih start])
       simp_all
qed

lemma clamp_invisible:
  "\<forall>p \<in> set w. 0 \<le> px p \<Longrightarrow> \<forall>x \<in> set xs. 0 \<le> fst x \<Longrightarrow>
   filter (\<lambda>p. max 0 a \<le> px p) (w @ map (mkpoint ts) xs) =
   filter (\<lambda>p. a \<le> px p) (w @ map (mkpoint ts) xs)"
  by (rule filter_cong) (auto simp: mkpoint_def)

text \<open>
  Claim C2. Samples \<open>xs\<close> pushed with non-decreasing times, at least one, onto whatever
  window the state holds: after the last push (so after each push) the window is exactly
  the samples, those of the window before and those pushed, whose time is \<open>\<ge>\<close> the last
  pushed time minus the window duration, in their order; the boundary is inclusive. This
  holds in the chart-kit variant as it stands, and in DbGraph.jsx and SimpleDBGraph for
  session times that are not negative (their cut-off is clamped below at 0, which such
  times never see) and, in DbGraph.jsx, for a positive duration (it takes 30 s for a
  duration of 0).
\<close>

theorem window_after_pushes:
  "sorted (map fst xs) \<Longrightarrow> xs \<noteq> [] \<Longrightarrow>
   waveformData (pushAll_part001 d xs s) =
     filter (\<lambda>p. fst (last xs) - d \<le> px p) (waveformData s @ map (mkpoint None) xs)
   \<and> (0 < d \<and> (\<forall>p \<in> set (waveformData s). 0 \<le> px p) \<and> (\<forall>x \<in> set xs. 0 \<le> fst x) \<longrightarrow>
        waveformData (pushAll_DbGraph d now xs s) =
          filter (\<lambda>p. fst (last xs) - d \<le> px p)
            (waveformData s @ map (mkpoint (Some now)) xs))
   \<and> ((\<forall>p \<in> set w. 0 \<le> px p) \<and> (\<forall>x \<in> set xs. 0 \<le> fst x) \<longrightarrow>
        pushAll_Simple d now xs w =
          filter (\<lambda>p. fst (last xs) - d \<le> px p) (w @ map (mkpoint (Some now)) xs))"
  using window_part001 [of xs d s] window_DbGraph [of xs d now s] window_Simple [of xs d now w]
    clamp_invisible [of "waveformData s" xs "fst (last xs) - d" "Some now"]
    clamp_invisible [of w xs "fst (last xs) - d" "Some now"]
  by simp

theorem window_after_pushes_witness:
  "sorted (map fst [(0 :: real, 50 :: real), (1 / 2, 60), (1, 5), (6, 70)])
   \<and> waveformData (pushAll_DbGraph 5 7 [(0, 50), (1 / 2, 60), (1, 5), (6, 70)] initial_state)
       = [\<lparr>px = 1, py = 5, ptimestamp = Some 7\<rparr>, \<lparr>px = 6, py = 70, ptimestamp = Some 7\<rparr>]
   \<and> waveformData (pushAll_part001 5 [(0, 50), (1 / 2, 60), (1, 5), (6, 70)] initial_state)
       = [\<lparr>px = 1, py = 5, ptimestamp = None\<rparr>, \<lparr>px = 6, py = 70, ptimestamp = None\<rparr>]
   \<and> pushAll_Simple 5 7 [(0, 50), (1 / 2, 60), (1, 5), (6, 70)]
        [\<lparr>px = 0, py = 1, ptimestamp = Some 0\<rparr>, \<lparr>px = 2, py = 3, ptimestamp = Some 0\<rparr>]
       = [\<lparr>px = 2, py = 3, ptimestamp = Some 0\<rparr>,
          \<lparr>px = 1, py = 5, ptimestamp = Some 7\<rparr>, \<lparr>px = 6, py = 70, ptimestamp = Some 7\<rparr>]"
  using window_after_pushes
    [of "[(0, 50), (1 / 2, 60), (1, 5), (6, 70)]" 5 initial_state 7
        "[\<lparr>px = 0, py = 1, ptimestamp = Some 0\<rparr>, \<lparr>px = 2, py = 3, ptimestamp = Some 0\<rparr>]"]
  by (simp add: initial_state_def mkpoint_def)

text \<open>The average after a push, as each updater computes it from the resulting window.\<close>

lemma averageDB_pushPoint:
  "averageDB (pushPoint_DbGraph d l t now s) =
     (if filter (\<lambda>p. 8 \<le> py p) (waveformData (pushPoint_DbGraph d l t now s)) = []
      then averageDB s
      else sum_list (map py (filter (\<lambda>p. 8 \<le> py p)
                               (waveformData (pushPoint_DbGraph d l t now s))))
           / real (length (filter (\<lambda>p. 8 \<le> py p)
                             (waveformData (pushPoint_DbGraph d l t now s)))))
   \<and> averageDB (pushPoint_part001 d l t s) =
     (if filter (\<lambda>p. py p < 1 \<or> 10 < py p) (waveformData (pushPoint_part001 d l t s)) = []
      then 0
      else sum_list (map py (filter (\<lambda>p. py p < 1 \<or> 10 < py p)
                               (waveformData (pushPoint_part001 d l t s))))
           / real (length (filter (\<lambda>p. py p < 1 \<or> 10 < py p)
                             (waveformData (pushPoint_part001 d l t s)))))"
proof -
  have a: "averageDB (pushPoint_DbGraph d l t now s) =
     (let q = filter (\<lambda>p. 8 \<le> py p) (waveformData (pushPoint_DbGraph d l t now s))
      in if q = [] then averageDB s else sum_list (map py q) / real (length q))"
    unfolding waveformData_pushPoint_DbGraph
    by (simp add: pushPoint_DbGraph_def Let_def sum_y_sum_list)
  have b: "averageDB (pushPoint_part001 d l t s) =
     (let q = filter (\<lambda>p. py p < 1 \<or> 10 < py p) (waveformData (pushPoint_part001 d l t s))
      in if q = [] then 0 else sum_list (map py q) / real (length q))"
    unfolding waveformData_pushPoint_part001
    by (simp add: pushPoint_part001_def Let_def sum_y_sum_list)
  from a b show ?thesis by (simp only: Let_def)
qed





text \<open>
  Claim C8 (as amended). No variant compares the time of a sample with the time of the
  one before, and there is no error for it: a sample whose time is less than the time of
  the last point of the window is pushed like any other. The window becomes the old
  window with the new point appended, filtered against the cut-off computed from the new
  time; the running average is recomputed over that window and the active speech time
  advances by the fixed tick if the level is above the threshold; in DbGraph.jsx the
  time shown and the current level are set from the sample. When the time and the
  duration are not negative the new point is kept as the newest point, so the window is
  not what it was.
\<close>

theorem out_of_order_sample_is_pushed:
  "waveformData s \<noteq> [] \<Longrightarrow> t < px (last (waveformData s)) \<Longrightarrow>
   waveformData (pushPoint_DbGraph d l t now s) =
     filter (\<lambda>p. max 0 (t - (if d = 0 then 30 else d)) \<le> px p)
       (waveformData s @ [\<lparr>px = t, py = l, ptimestamp = Some now\<rparr>])
   \<and> time (pushPoint_DbGraph d l t now s) = t
   \<and> currentDB (pushPoint_DbGraph d l t now s) = l
   \<and> averageDB (pushPoint_DbGraph d l t now s) =
     (if filter (\<lambda>p. 8 \<le> py p) (waveformData (pushPoint_DbGraph d l t now s)) = []
      then averageDB s
      else sum_list (map py (filter (\<lambda>p. 8 \<le> py p)
                               (waveformData (pushPoint_DbGraph d l t now s))))
           / real (length (filter (\<lambda>p. 8 \<le> py p)
                             (waveformData (pushPoint_DbGraph d l t now s)))))
   \<and> activeSpeechTimeRef (pushPoint_DbGraph d l t now s) =
     (if 12 < l then activeSpeechTimeRef s + 1 / 10 else activeSpeechTimeRef s)
   \<and> waveformData (pushPoint_part001 d l t s) =
     filter (\<lambda>p. t - d \<le> px p) (waveformData s @ [\<lparr>px = t, py = l, ptimestamp = None\<rparr>])
   \<and> averageDB (pushPoint_part001 d l t s) =
     (if filter (\<lambda>p. py p < 1 \<or> 10 < py p) (waveformData (pushPoint_part001 d l t s)) = []
      then 0
      else sum_list (map py (filter (\<lambda>p. py p < 1 \<or> 10 < py p)
                               (waveformData (pushPoint_part001 d l t s))))
           / real (length (filter (\<lambda>p. py p < 1 \<or> 10 < py p)
                             (waveformData (pushPoint_part001 d l t s)))))
   \<and> activeSpeechTimeRef (pushPoint_part001 d l t s) =
     (if 10 < l then activeSpeechTimeRef s + 5 / 100 else activeSpeechTimeRef s)
   \<and> (0 \<le> t \<and> 0 \<le> d \<longrightarrow>
        last (waveformData (pushPoint_DbGraph d l t now s))
          = \<lparr>px = t, py = l, ptimestamp = Some now\<rparr>
        \<and> waveformData (pushPoint_DbGraph d l t now s) \<noteq> waveformData s
        \<and> last (waveformData (pushPoint_part001 d l t s))
          = \<lparr>px = t, py = l, ptimestamp = None\<rparr>
        \<and> waveformData (pushPoint_part001 d l t s) \<noteq> waveformData s)"
proof -
  assume ne: "waveformData s \<noteq> []" and order: "t < px (last (waveformData s))"
  have fields:
    "time (pushPoint_DbGraph d l t now s) = t"
    "currentDB (pushPoint_DbGraph d l t now s) = l"
    "activeSpeechTimeRef (pushPoint_DbGraph d l t now s) =
       (if 12 < l then activeSpeechTimeRef s + 1 / 10 else activeSpeechTimeRef s)"
    "activeSpeechTimeRef (pushPoint_part001 d l t s) =
       (if 10 < l then activeSpeechTimeRef s + 5 / 100 else activeSpeechTimeRef s)"
    by (simp_all add: pushPoint_DbGraph_def pushPoint_part001_def Let_def)
  have kept:
    "last (waveformData (pushPoint_DbGraph d l t now s))
       = \<lparr>px = t, py = l, ptimestamp = Some now\<rparr>
     \<and> waveformData (pushPoint_DbGraph d l t now s) \<noteq> waveformData s
     \<and> last (waveformData (pushPoint_part001 d l t s))
       = \<lparr>px = t, py = l, ptimestamp = None\<rparr>
     \<and> waveformData (pushPoint_part001 d l t s) \<noteq> waveformData s"
    if t: "0 \<le> t" and d: "0 \<le> d"
  proof -
    have lD: "last (waveformData (pushPoint_DbGraph d l t now s))
                = \<lparr>px = t, py = l, ptimestamp = Some now\<rparr>"
      using t d by (simp add: waveformData_pushPoint_DbGraph)
    have lP: "last (waveformData (pushPoint_part001 d l t s))
                = \<lparr>px = t, py = l, ptimestamp = None\<rparr>"
      using d by (simp add: waveformData_pushPoint_part001)
    have "px (last (waveformData (pushPoint_DbGraph d l t now s))) \<noteq> px (last (waveformData s))"
      using order by (simp add: lD)
    then have nD: "waveformData (pushPoint_DbGraph d l t now s) \<noteq> waveformData s"
      by auto
    have "px (last (waveformData (pushPoint_part001 d l t s))) \<noteq> px (last (waveformData s))"
      using order by (simp add: lP)
    then have nP: "waveformData (pushPoint_part001 d l t s) \<noteq> waveformData s"
      by auto
    from lD nD lP nP show ?thesis by simp
  qed
  show ?thesis
    using averageDB_pushPoint [of d l t now s] fields kept
      waveformData_pushPoint_DbGraph [of d l t now s] waveformData_pushPoint_part001 [of d l t s]
    by blast
qed

theorem out_of_order_sample_is_pushed_witness:
  "waveformData (pushPoint_DbGraph 50 50 2 2000 initial_state) \<noteq> []
   \<and> (1::real) < px (last (waveformData (pushPoint_DbGraph 50 50 2 2000 initial_state)))
   \<and> time (pushPoint_DbGraph 50 20 1 3000 (pushPoint_DbGraph 50 50 2 2000 initial_state)) = 1
   \<and> waveformData (pushPoint_DbGraph 50 20 1 3000 (pushPoint_DbGraph 50 50 2 2000 initial_state))
       \<noteq> waveformData (pushPoint_DbGraph 50 50 2 2000 initial_state)
   \<and> activeSpeechTimeRef
       (pushPoint_DbGraph 50 20 1 3000 (pushPoint_DbGraph 50 50 2 2000 initial_state))
       = 2 / 10"
  using out_of_order_sample_is_pushed
      [of "pushPoint_DbGraph 50 50 2 2000 initial_state" 1 50 20 3000]
  by (simp add: waveformData_pushPoint_DbGraph initial_state_def)
      (simp add: pushPoint_DbGraph_def Let_def)

text \<open>
  The claim as stated fails: after a sample at 2 s, a sample at 1 s changes the window,
  the time shown, the running average and the active speech time.
\<close>

theorem out_of_order_sample_counterexample:
  "waveformData (pushPoint_DbGraph 50 50 2 2000 initial_state)
     = [\<lparr>px = 2, py = 50, ptimestamp = Some 2000\<rparr>]
   \<and> waveformData
       (pushPoint_DbGraph 50 20 1 3000 (pushPoint_DbGraph 50 50 2 2000 initial_state))
     = [\<lparr>px = 2, py = 50, ptimestamp = Some 2000\<rparr>, \<lparr>px = 1, py = 20, ptimestamp = Some 3000\<rparr>]
   \<and> time (pushPoint_DbGraph 50 20 1 3000 (pushPoint_DbGraph 50 50 2 2000 initial_state)) = 1
   \<and> time (pushPoint_DbGraph 50 50 2 2000 initial_state) = 2
   \<and> averageDB (pushPoint_DbGraph 50 50 2 2000 initial_state) = 50
   \<and> averageDB
       (pushPoint_DbGraph 50 20 1 3000 (pushPoint_DbGraph 50 50 2 2000 initial_state)) = 35
   \<and> activeSpeechTimeRef (pushPoint_DbGraph 50 50 2 2000 initial_state) = 1 / 10
   \<and> activeSpeechTimeRef
       (pushPoint_DbGraph 50 20 1 3000 (pushPoint_DbGraph 50 50 2 2000 initial_state)) = 2 / 10"
  by (simp add: pushPoint_DbGraph_def initial_state_def Let_def sum_y_def)

text \<open>
  Claim C9 (as amended). \<^verbatim>\<open>startAudio\<close> does not look at the duration before starting,
  and no error is raised for it. With a duration of 0 or less, the permission granted
  and the recorder starting, it returns \<^verbatim>\<open>true\<close>, resets the time, the recording
  duration and the active speech time (in DbGraph.jsx the waveform too), takes the start
  time and sets \<^verbatim>\<open>running\<close>; no auto-stop timeout is armed. It returns \<^verbatim>\<open>false\<close> in two
  cases, whatever the duration: when the permission is refused, with the state
  untouched; and when starting the recorder throws, after the same resets (DbGraph.jsx
  then clears \<^verbatim>\<open>running\<close>).
\<close>

theorem startAudio_accepts_nonpositive_duration:
  "duration \<le> 0 \<Longrightarrow>
   startAudio_DbGraph duration True True now s =
     (True, s\<lparr>time := 0, recordingDuration := 0, activeSpeechTimeRef := 0,
              audioDataRef := [], waveformData := [], startTimeRef := now,
              running := True, isPaused := False\<rparr>)
   \<and> startAudio_part001 duration True True now s =
     (True, s\<lparr>time := 0, recordingDuration := 0, activeSpeechTimeRef := 0,
              audioDataRef := [], startTimeRef := now, running := True\<rparr>)
   \<and> startAudio_DbGraph duration True False now s =
     (False, s\<lparr>time := 0, recordingDuration := 0, activeSpeechTimeRef := 0,
               audioDataRef := [], waveformData := [], startTimeRef := now,
               running := False, isPaused := False\<rparr>)
   \<and> fst (startAudio_part001 duration True False now s) = False
   \<and> time (snd (startAudio_part001 duration True False now s)) = 0
   \<and> recordingDuration (snd (startAudio_part001 duration True False now s)) = 0
   \<and> activeSpeechTimeRef (snd (startAudio_part001 duration True False now s)) = 0
   \<and> startTimeRef (snd (startAudio_part001 duration True False now s)) = now
   \<and> startAudio_DbGraph duration False starts now s = (False, s)
   \<and> startAudio_part001 duration False starts now s = (False, s)"
  by (simp add: startAudio_DbGraph_def startAudio_part001_def Let_def)

theorem startAudio_accepts_nonpositive_duration_witness:
  "(0::real) \<le> 0
   \<and> fst (startAudio_DbGraph 0 True True 1000 initial_state)
   \<and> running (snd (startAudio_DbGraph 0 True True 1000 initial_state))
   \<and> startTimeRef (snd (startAudio_part001 0 True True 1000 initial_state)) = 1000
   \<and> \<not> fst (startAudio_DbGraph 0 True False 1000 initial_state)
   \<and> startTimeRef (snd (startAudio_DbGraph 0 True False 1000 initial_state)) = 1000"
  using startAudio_accepts_nonpositive_duration [of 0 1000 initial_state True]
  by simp

text \<open>
  The claim as stated fails: after a session that left a point in the waveform,
  \<^verbatim>\<open>startAudio\<close> with duration 0 (and with duration -5) succeeds, empties the waveform
  and sets \<^verbatim>\<open>running\<close>.
\<close>

theorem startAudio_nonpositive_duration_counterexample:
  "waveformData
     (snd (stopRecording_DbGraph True 500
        (pushPoint_DbGraph 0 50 (1 / 10) 100
           (snd (startAudio_DbGraph 0 True True 0 initial_state))))) \<noteq> []
   \<and> fst (startAudio_DbGraph 0 True True 1000
        (snd (stopRecording_DbGraph True 500
           (pushPoint_DbGraph 0 50 (1 / 10) 100
              (snd (startAudio_DbGraph 0 True True 0 initial_state))))))
   \<and> waveformData (snd (startAudio_DbGraph 0 True True 1000
        (snd (stopRecording_DbGraph True 500
           (pushPoint_DbGraph 0 50 (1 / 10) 100
              (snd (startAudio_DbGraph 0 True True 0 initial_state))))))) = []
   \<and> running (snd (startAudio_DbGraph 0 True True 1000
        (snd (stopRecording_DbGraph True 500
           (pushPoint_DbGraph 0 50 (1 / 10) 100
              (snd (startAudio_DbGraph 0 True True 0 initial_state)))))))
   \<and> fst (startAudio_part001 (- 5) True True 1000 initial_state)
   \<and> startTimeRef (snd (startAudio_part001 (- 5) True True 1000 initial_state)) = 1000
   \<and> startTimeRef initial_state = 0"
  by (simp add: startAudio_DbGraph_def startAudio_part001_def stopRecording_DbGraph_def
      stopAudio_DbGraph_def pushPoint_DbGraph_def initial_state_def Let_def)

section \<open>Stopping\<close>

text \<open>
  What \<^verbatim>\<open>stopAudio\<close> returns: 0 under one second of active speech when the recorder
  stops, and otherwise the average it sees. Called through the handle it sees the
  current average.
\<close>

lemma stopAudio_returns:
  "fst (stopAudio_DbGraph stops a now s) =
     (if stops \<and> activeSpeechTimeRef s < 1 then 0 else a)
   \<and> fst (stopAudio_part001 a now s) = (if activeSpeechTimeRef s < 1 then 0 else a)"
  by (simp add: stopAudio_DbGraph_def stopAudio_part001_def Let_def)

lemma stopRecording_final_average:
  "fst (stopRecording_part001 now s) = (if activeSpeechTimeRef s < 1 then 0 else averageDB s)
   \<and> averageDB (snd (stopRecording_part001 now s)) = fst (stopRecording_part001 now s)
   \<and> fst (stopRecording_DbGraph True now s) =
       (if activeSpeechTimeRef s < 1 then 0 else averageDB s)
   \<and> averageDB (snd (stopRecording_DbGraph True now s)) = fst (stopRecording_DbGraph True now s)"
  by (simp add: stopRecording_part001_def stopRecording_DbGraph_def stopAudio_part001_def
      stopAudio_DbGraph_def Let_def)

lemma start_stop_try_path:
  "fst (stopAudio_DbGraph True a t2 (snd (startAudio_DbGraph d True starts t1 s))) = 0
   \<and> activeSpeechTimeRef
       (snd (stopAudio_DbGraph stops a t2 (snd (startAudio_DbGraph d True starts t1 s)))) = 0
   \<and> time (snd (stopAudio_DbGraph stops a t2 (snd (startAudio_DbGraph d True starts t1 s)))) = 0
   \<and> \<not> running
         (snd (stopAudio_DbGraph stops a t2 (snd (startAudio_DbGraph d True starts t1 s))))
   \<and> fst (stopAudio_part001 a t2 (snd (startAudio_part001 d True starts t1 s))) = 0
   \<and> activeSpeechTimeRef
       (snd (stopAudio_part001 a t2 (snd (startAudio_part001 d True starts t1 s)))) = 0
   \<and> time (snd (stopAudio_part001 a t2 (snd (startAudio_part001 d True starts t1 s)))) = 0
   \<and> \<not> running (snd (stopAudio_part001 a t2 (snd (startAudio_part001 d True starts t1 s))))"
  by (simp add: stopAudio_DbGraph_def startAudio_DbGraph_def stopAudio_part001_def
      startAudio_part001_def Let_def)

text \<open>
  Claim C1, evaluated where the code departs from it. In DbGraph.jsx three samples of
  level 42 give an average of 42 and 0.3 s of active speech; \<^verbatim>\<open>stopRecording\<close> while the
  recorder throws on stop returns 42 from the \<^verbatim>\<open>catch\<close>, where the claim says 0. And
  after twelve samples of level 42 (1.2 s of active speech, average 42) the auto-stop
  timeout calls the \<^verbatim>\<open>stopAudio\<close> that saw the average at the start of the session, and
  that returns 0, where the claim says the running average, 42; so does the auto-stop
  of the chart-kit variant.
\<close>

theorem stopAudio_departs_from_override:
  "activeSpeechTimeRef
     (pushAll_DbGraph 50 100 [(1 / 10, 42), (2 / 10, 42), (3 / 10, 42)]
        (snd (startAudio_DbGraph 50 True True 0 initial_state))) < 1
   \<and> fst (stopRecording_DbGraph False 400
        (pushAll_DbGraph 50 100 [(1 / 10, 42), (2 / 10, 42), (3 / 10, 42)]
           (snd (startAudio_DbGraph 50 True True 0 initial_state)))) = 42
   \<and> averageDB
       (pushAll_DbGraph 50 100
          [(1 / 10, 42), (2 / 10, 42), (3 / 10, 42), (4 / 10, 42), (5 / 10, 42),
           (6 / 10, 42), (7 / 10, 42), (8 / 10, 42), (9 / 10, 42), (1, 42),
           (11 / 10, 42), (12 / 10, 42)]
          (snd (startAudio_DbGraph 50 True True 0 initial_state))) = 42
   \<and> 1 \<le> activeSpeechTimeRef
       (pushAll_DbGraph 50 100
          [(1 / 10, 42), (2 / 10, 42), (3 / 10, 42), (4 / 10, 42), (5 / 10, 42),
           (6 / 10, 42), (7 / 10, 42), (8 / 10, 42), (9 / 10, 42), (1, 42),
           (11 / 10, 42), (12 / 10, 42)]
          (snd (startAudio_DbGraph 50 True True 0 initial_state)))
   \<and> fst (stopAudio_DbGraph True
        (averageDB (snd (startAudio_DbGraph 50 True True 0 initial_state))) 50000
        (pushAll_DbGraph 50 100
           [(1 / 10, 42), (2 / 10, 42), (3 / 10, 42), (4 / 10, 42), (5 / 10, 42),
            (6 / 10, 42), (7 / 10, 42), (8 / 10, 42), (9 / 10, 42), (1, 42),
            (11 / 10, 42), (12 / 10, 42)]
           (snd (startAudio_DbGraph 50 True True 0 initial_state)))) = 0
   \<and> fst (stopAudio_part001
        (averageDB (snd (startAudio_part001 5 True True 0 initial_state))) 5000
        (pushAll_part001 5
           [(1 / 10, 42), (2 / 10, 42), (3 / 10, 42), (4 / 10, 42), (5 / 10, 42),
            (6 / 10, 42), (7 / 10, 42), (8 / 10, 42), (9 / 10, 42), (1, 42),
            (11 / 10, 42), (12 / 10, 42), (13 / 10, 42), (14 / 10, 42), (15 / 10, 42),
            (16 / 10, 42), (17 / 10, 42), (18 / 10, 42), (19 / 10, 42), (2, 42),
            (21 / 10, 42), (22 / 10, 42), (23 / 10, 42), (24 / 10, 42)]
           (snd (startAudio_part001 5 True True 0 initial_state)))) = 0
   \<and> averageDB
        (pushAll_part001 5
           [(1 / 10, 42), (2 / 10, 42), (3 / 10, 42), (4 / 10, 42), (5 / 10, 42),
            (6 / 10, 42), (7 / 10, 42), (8 / 10, 42), (9 / 10, 42), (1, 42),
            (11 / 10, 42), (12 / 10, 42), (13 / 10, 42), (14 / 10, 42), (15 / 10, 42),
            (16 / 10, 42), (17 / 10, 42), (18 / 10, 42), (19 / 10, 42), (2, 42),
            (21 / 10, 42), (22 / 10, 42), (23 / 10, 42), (24 / 10, 42)]
           (snd (startAudio_part001 5 True True 0 initial_state))) = 42"
  by (simp add: stopRecording_DbGraph_def stopAudio_DbGraph_def startAudio_DbGraph_def
      pushPoint_DbGraph_def stopAudio_part001_def startAudio_part001_def
      pushPoint_part001_def initial_state_def Let_def sum_y_def)

text \<open>
  Claim C7, evaluated where the code departs from it. In DbGraph.jsx a first session of
  twelve samples of level 42 (1.2 s of active speech) ends with the average 42, which
  \<^verbatim>\<open>startAudio\<close> does not reset. A second session is started and stopped with no
  sample; the recorder throws on stop and the \<^verbatim>\<open>catch\<close> returns 42, where the claim
  says 0. On the path without an exception 0 is returned.
\<close>

theorem start_stop_returns_earlier_average:
  "fst (stopRecording_DbGraph True 2000
          (pushAll_DbGraph 50 0
             [(1 / 10, 42), (2 / 10, 42), (3 / 10, 42), (4 / 10, 42), (5 / 10, 42),
              (6 / 10, 42), (7 / 10, 42), (8 / 10, 42), (9 / 10, 42), (1, 42),
              (11 / 10, 42), (12 / 10, 42)]
             (snd (startAudio_DbGraph 50 True True 0 initial_state)))) = 42
   \<and> fst (stopRecording_DbGraph False 9000
        (snd (startAudio_DbGraph 50 True True 5000
           (snd (stopRecording_DbGraph True 2000
              (pushAll_DbGraph 50 0
                 [(1 / 10, 42), (2 / 10, 42), (3 / 10, 42), (4 / 10, 42), (5 / 10, 42),
                  (6 / 10, 42), (7 / 10, 42), (8 / 10, 42), (9 / 10, 42), (1, 42),
                  (11 / 10, 42), (12 / 10, 42)]
                 (snd (startAudio_DbGraph 50 True True 0 initial_state)))))))) = 42
   \<and> fst (stopRecording_DbGraph True 9000
        (snd (startAudio_DbGraph 50 True True 5000
           (snd (stopRecording_DbGraph True 2000
              (pushAll_DbGraph 50 0
                 [(1 / 10, 42), (2 / 10, 42), (3 / 10, 42), (4 / 10, 42), (5 / 10, 42),
                  (6 / 10, 42), (7 / 10, 42), (8 / 10, 42), (9 / 10, 42), (1, 42),
                  (11 / 10, 42), (12 / 10, 42)]
                 (snd (startAudio_DbGraph 50 True True 0 initial_state)))))))) = 0"
  by (simp add: stopRecording_DbGraph_def stopAudio_DbGraph_def startAudio_DbGraph_def
      pushPoint_DbGraph_def initial_state_def Let_def sum_y_def)

section \<open>Clearing\<close>

text \<open>
  \<^verbatim>\<open>clearData\<close>, in any state, empties the waveform and sets the current level, the
  average, the active speech time, the time and the recording duration to 0; it does
  not write \<^verbatim>\<open>running\<close>. In DbGraph.jsx no later push writes \<^verbatim>\<open>running\<close> either.
\<close>

lemma clearData_zero_snapshot:
  "snapshot_of (clearData_DbGraph s) =
     \<lparr>currentLevel = 0, runningAverage = 0, activeDurationSeconds = 0,
      elapsedSeconds = 0, sampleCount = 0\<rparr>
   \<and> waveformData (clearData_DbGraph s) = []
   \<and> recordingDuration (clearData_DbGraph s) = 0
   \<and> running (clearData_DbGraph s) = running s
   \<and> running (pushPoint_DbGraph d l t now (clearData_DbGraph s)) = running s
   \<and> snapshot_of (clearData_part001 s) =
     \<lparr>currentLevel = 0, runningAverage = 0, activeDurationSeconds = 0,
      elapsedSeconds = 0, sampleCount = 0\<rparr>
   \<and> waveformData (clearData_part001 s) = []
   \<and> recordingDuration (clearData_part001 s) = 0
   \<and> running (clearData_part001 s) = running s"
  by (simp add: snapshot_of_def clearData_DbGraph_def clearData_part001_def
      pushPoint_DbGraph_def Let_def)

text \<open>
  In the chart-kit variant \<^verbatim>\<open>clearData\<close> sets the start time to 0 and leaves the interval
  alive, so the next run of the callback measures the time since the epoch, finds the
  duration reached and stops the session.
\<close>

lemma clearData_part001_then_tick:
  assumes "running s" and "0 < d" and "d * 1000 \<le> real_of_int now"
  shows "\<not> running (tick_part001 d a r1 r2 now (clearData_part001 s))"
proof -
  have r: "running (clearData_part001 s)"
    using assms(1) by (simp add: clearData_part001_def)
  have "seconds_since now (startTimeRef (clearData_part001 s)) = real_of_int now / 1000"
    by (simp add: seconds_since_def clearData_part001_def)
  then have "d \<le> seconds_since now (startTimeRef (clearData_part001 s))"
    using assms(3) by (simp add: field_simps)
  with assms(2) r show ?thesis
    by (simp add: tick_part001_auto_stop stopAudio_part001_def Let_def)
qed

text \<open>
  Claim C6, evaluated where the code departs from it. A chart-kit session of duration 5
  is started when the clock reads 1700000000000 ms and cleared while it runs:
  \<^verbatim>\<open>running\<close> still holds right after \<^verbatim>\<open>clearData\<close>, and the run of the interval callback
  50 ms later stops the session, where the claim says that clearing does not stop it.
\<close>

theorem clearData_then_tick_stops_session:
  "running (snd (startAudio_part001 5 True True 1700000000000 initial_state))
   \<and> running (clearData_part001 (snd (startAudio_part001 5 True True 1700000000000 initial_state)))
   \<and> \<not> running
         (tick_part001 5 0 (1 / 2) (1 / 2) 1700000000050
            (clearData_part001
               (snd (startAudio_part001 5 True True 1700000000000 initial_state))))
   \<and> running
         (tick_part001 5 0 (1 / 2) (1 / 2) 1700000000050
            (snd (startAudio_part001 5 True True 1700000000000 initial_state)))"
  by (simp add: tick_part001_def stopAudio_part001_def clearData_part001_def
      startAudio_part001_def pushPoint_part001_def initial_state_def seconds_since_def Let_def)

section \<open>Properties of the normalisations\<close>

lemma soundLevelToPercentage_mono:
  "x \<le> y \<Longrightarrow> soundLevelToPercentage x \<le> soundLevelToPercentage y"
proof -
  assume xy: "x \<le> y"
  show ?thesis
  proof (cases "x \<le> 0")
    case True
    then have "soundLevelToPercentage x = 0" by (simp add: soundLevelToPercentage_def)
    then show ?thesis using soundLevelToPercentage_range [of y] by simp
  next
    case False
    then have y: "\<not> y \<le> 0" using xy by simp
    have "x / 80 * 100 \<le> y / 80 * 100" using xy by simp
    then have "min 100 (max 0 (x / 80 * 100)) \<le> min 100 (max 0 (y / 80 * 100))"
      by (intro min.mono max.mono order_refl)
    then show ?thesis
      using False y by (simp only: soundLevelToPercentage_def if_False js_round_mono)
  qed
qed

lemma calculateRMS_Num:
  "buffer \<noteq> [] \<Longrightarrow> \<exists>r. calculateRMS buffer = Num r \<and> 0 \<le> r"
proof -
  have "0 \<le> foldl (\<lambda>sum b. sum + b * b) a buffer" if "0 \<le> a" for a :: int
    using that by (induction buffer arbitrary: a) simp_all
  then show "buffer \<noteq> [] \<Longrightarrow> ?thesis" by (simp add: calculateRMS_def)
qed

lemma normalizedDB_Num:
  "0 \<le> r \<Longrightarrow>
   normalizedDB (Num r) =
     Num (if r = 0 then 0 else max 0 (min 100 (20 * log 10 (r / 32767) + 90)))"
  by (simp add: normalizedDB_def)

text \<open>
  On numbers the level of DbGraph.jsx is monotone in the RMS and within 0..100; so is
  \<^verbatim>\<open>soundLevelToPercentage\<close> of App.js on every sound level, and the simulated level of
  the chart-kit variant, within 0..50, on the draws of \<^verbatim>\<open>Math.random()\<close>.
\<close>

lemma normalizedDB_numbers:
  assumes "0 \<le> x" and "x \<le> y"
  shows "\<exists>a b. normalizedDB (Num x) = Num a \<and> normalizedDB (Num y) = Num b
               \<and> a \<le> b \<and> 0 \<le> a \<and> b \<le> 100"
proof (cases "x = 0")
  case True
  then show ?thesis using assms by (simp add: normalizedDB_Num)
next
  case False
  then have x: "0 < x / 32767" and y: "0 < y / 32767" and ny: "y \<noteq> 0"
    using assms by simp_all
  have ten: "1 < (10::real)" by simp
  have "x / 32767 \<le> y / 32767" using assms(2) by (simp add: divide_right_mono)
  then have "log 10 (x / 32767) \<le> log 10 (y / 32767)"
    by (simp only: log_le_cancel_iff [OF ten x y])
  then have "20 * log 10 (x / 32767) + 90 \<le> 20 * log 10 (y / 32767) + 90"
    by simp
  then have "max 0 (min 100 (20 * log 10 (x / 32767) + 90))
             \<le> max 0 (min 100 (20 * log 10 (y / 32767) + 90))"
    by (intro min.mono max.mono order_refl)
  then show ?thesis using assms False ny by (simp add: normalizedDB_Num)
qed

lemma normalize_monotone_bounded_on_numbers:
  "x \<le> y \<Longrightarrow>
   soundLevelToPercentage x \<le> soundLevelToPercentage y
   \<and> 0 \<le> soundLevelToPercentage x \<and> soundLevelToPercentage x \<le> 100
   \<and> (0 \<le> x \<longrightarrow>
        (\<exists>a b. normalizedDB (Num x) = Num a \<and> normalizedDB (Num y) = Num b
               \<and> a \<le> b \<and> 0 \<le> a \<and> b \<le> 100))
   \<and> (0 \<le> x \<and> y < 1 \<and> r \<le> r' \<longrightarrow>
        processAudioData x r \<le> processAudioData y r'
        \<and> 0 \<le> processAudioData x r \<and> processAudioData x r \<le> 50)"
  using soundLevelToPercentage_mono [of x y] soundLevelToPercentage_range [of x]
    normalizedDB_numbers [of x y]
    processAudioData_mono [of x y r r'] processAudioData_range [of x r]
  by simp

text \<open>
  Claim C4, evaluated where the code departs from it. For the empty buffer the RMS of
  DbGraph.jsx is NaN, and the clamp \<^verbatim>\<open>Math.max(0, Math.min(100, ...))\<close> returns NaN: the
  level is not in 0..100 and compares with no other level. The handler stores it.
\<close>

theorem normalizedDB_empty_buffer_is_NaN:
  "calculateRMS [] = NaN
   \<and> normalizedDB (calculateRMS []) = NaN
   \<and> onData_DbGraph 50 [] 1000 initial_state = None
   \<and> normalizedDB (calculateRMS [32767]) = Num 90"
  by (simp add: calculateRMS_def normalizedDB_def onData_DbGraph_def)

section \<open>The data handler in terms of the push\<close>

text \<open>
  The \<^verbatim>\<open>'data'\<close> handler of DbGraph.jsx computes the level of the buffer and the session
  time, and pushes them; for every buffer that is not empty the level is a number.
\<close>

lemma onData_DbGraph_push:
  "normalizedDB (calculateRMS buffer) = Num level \<Longrightarrow>
   onData_DbGraph d buffer now s =
     Some (pushPoint_DbGraph d level (seconds_since now (startTimeRef s)) now s)"
  by (simp add: onData_DbGraph_def)

lemma onData_DbGraph_nonempty:
  assumes "buffer \<noteq> []"
  shows "\<exists>level. 0 \<le> level \<and> level \<le> 100
           \<and> onData_DbGraph d buffer now s =
               Some (pushPoint_DbGraph d level (seconds_since now (startTimeRef s)) now s)"
proof -
  from calculateRMS_Num [OF assms] obtain r where r: "calculateRMS buffer = Num r" "0 \<le> r"
    by blast
  from normalizedDB_numbers [OF r(2) order_refl] obtain a
    where a: "normalizedDB (Num r) = Num a" "0 \<le> a" "a \<le> 100"
    by auto
  show ?thesis
    using a r(1) by (auto simp: onData_DbGraph_def)
qed

end
